theory Spec2Isabelle
  imports Main
begin

section \<open>Board rules (src/lib/game-logic.ts)\<close>

text \<open>
  Coordinates and sizes are JavaScript numbers that the callers only ever fill with
  integers (grid indices, ship lengths), so they are modelled as \<open>int\<close>.  The optional
  field \<open>hits?: number\<close> is an \<open>int option\<close>.  \<open>Ship\<close> extends
  \<open>ShipPlacementData\<close>, so the record does too.  The fields \<open>id\<close>, \<open>name\<close>,
  \<open>size\<close>, \<open>x\<close> and \<open>y\<close> carry the prefix of their record.
\<close>

record shipPlacementData =
  ship_id :: string
  ship_name :: string
  ship_size :: int
  ship_x :: int
  ship_y :: int
  isVertical :: bool

record ship = shipPlacementData +
  isPlaced :: bool
  hits :: "int option"

record shot =
  shot_x :: int
  shot_y :: int
  shot_isHit :: bool

record processShotResult =
  isHit :: bool
  hitShipId :: "string option"
  isSunk :: bool
  isWin :: bool

definition GRID_SIZE :: int where
  "GRID_SIZE = 10"

text \<open>
  The index range of \<open>for (let i = 0; i < ship.size; i++)\<close>.
\<close>

definition sizeRange :: "int \<Rightarrow> int list" where
  "sizeRange n = [0..n - 1]"

subsection \<open>validateShipPlacement\<close>

text \<open>
  \<open>currentX = ship.isVertical ? ship.x : ship.x + i\<close> and
  \<open>currentY = ship.isVertical ? ship.y + i : ship.y\<close>.
\<close>

definition placementCell :: "'a shipPlacementData_scheme \<Rightarrow> int \<Rightarrow> int \<times> int" where
  "placementCell s i =
     (if isVertical s then ship_x s else ship_x s + i,
      if isVertical s then ship_y s + i else ship_y s)"

definition placementCells :: "'a shipPlacementData_scheme \<Rightarrow> (int \<times> int) list" where
  "placementCells s = map (placementCell s) (sizeRange (ship_size s))"

text \<open>
  The inner loop over one ship's cells.  \<open>occupiedCells\<close> is the set of keys
  \<open>`${x},${y}`\<close>, which name integer pairs injectively; \<open>None\<close> is the early
  \<open>return false\<close>.
\<close>

fun placeCells :: "(int \<times> int) list \<Rightarrow> (int \<times> int) list \<Rightarrow> (int \<times> int) list option" where
  "placeCells [] occupiedCells = Some occupiedCells"
| "placeCells (c # cs) occupiedCells =
     (if fst c < 0 \<or> fst c \<ge> GRID_SIZE \<or> snd c < 0 \<or> snd c \<ge> GRID_SIZE then None
      else if c \<in> set occupiedCells then None
      else placeCells cs (c # occupiedCells))"

fun placeShips :: "ship list \<Rightarrow> (int \<times> int) list \<Rightarrow> bool" where
  "placeShips [] occupiedCells = True"
| "placeShips (s # ss) occupiedCells =
     (case placeCells (placementCells s) occupiedCells of
        None \<Rightarrow> False
      | Some occupiedCells' \<Rightarrow> placeShips ss occupiedCells')"

text \<open>
  The first test of the source, that every ship has numeric \<open>x\<close> and \<open>y\<close>, always
  passes on a value of the declared type \<open>Ship\<close>, whose coordinates are numbers.
\<close>

definition validateShipPlacement :: "ship list \<Rightarrow> bool" where
  "validateShipPlacement ships = placeShips ships []"

subsection \<open>checkShot\<close>

text \<open>
  \<open>shipX = ship.isVertical ? ship.x : ship.x + i\<close> and
  \<open>shipY = ship.isVertical ? ship.y : ship.y + i\<close>, as written in \<open>checkShot\<close>
  (and again in \<open>reconstructGameState\<close>).
\<close>

definition shotCell :: "'a shipPlacementData_scheme \<Rightarrow> int \<Rightarrow> int \<times> int" where
  "shotCell s i =
     (if isVertical s then ship_x s else ship_x s + i,
      if isVertical s then ship_y s else ship_y s + i)"

text \<open>The inner loop of \<open>checkShot\<close> finds a matching index.\<close>

definition coversShot :: "int \<Rightarrow> int \<Rightarrow> ship \<Rightarrow> bool" where
  "coversShot x y s = list_ex (\<lambda>i. fst (shotCell s i) = x \<and> snd (shotCell s i) = y) (sizeRange (ship_size s))"

text \<open>
  \<open>if (!ship.hits) ship.hits = 0; ship.hits++\<close>: an absent counter counts as zero.
\<close>

definition hitsOrZero :: "ship \<Rightarrow> int" where
  "hitsOrZero s = (case hits s of None \<Rightarrow> 0 | Some h \<Rightarrow> h)"

definition recordHit :: "ship \<Rightarrow> ship" where
  "recordHit s = s\<lparr>hits := Some (hitsOrZero s + 1)\<rparr>"

text \<open>
  The outer loop: the first ship with a matching cell is mutated in place and the scan
  stops.  The result is the hit ship (as mutated) and the fleet after the call.
\<close>

fun scanFleet :: "int \<Rightarrow> int \<Rightarrow> ship list \<Rightarrow> ship option \<times> ship list" where
  "scanFleet x y [] = (None, [])"
| "scanFleet x y (s # ss) =
     (if coversShot x y s then (Some (recordHit s), recordHit s # ss)
      else (case scanFleet x y ss of (hitShip, ss') \<Rightarrow> (hitShip, s # ss')))"

definition checkShot :: "int \<Rightarrow> int \<Rightarrow> ship list \<Rightarrow> processShotResult \<times> ship list" where
  "checkShot x y targetShips =
     (case scanFleet x y targetShips of (hitShip, targetShips') \<Rightarrow>
        let sunk = (case hitShip of None \<Rightarrow> False | Some h \<Rightarrow> hits h = Some (ship_size h));
            win = (if sunk then list_all (\<lambda>s. hitsOrZero s \<ge> ship_size s) targetShips' else False)
        in (\<lparr>isHit = (hitShip \<noteq> None), hitShipId = map_option ship_id hitShip,
             isSunk = sunk, isWin = win\<rparr>, targetShips'))"

subsection \<open>validateShot\<close>

definition validateShot :: "int \<Rightarrow> int \<Rightarrow> shot list \<Rightarrow> bool" where
  "validateShot x y existingShots =
     (if x < 0 \<or> x \<ge> GRID_SIZE \<or> y < 0 \<or> y \<ge> GRID_SIZE then False
      else if list_ex (\<lambda>s. shot_x s = x \<and> shot_y s = y) existingShots then False
      else True)"

section \<open>Session coordinator (the socket server, src/unnamed/part\_002)\<close>

text \<open>
  Each socket handler is a function from the process state before the event to the
  events it sends and the state after it, run to its end with no other handler in
  between.  The caller's \<open>socket.id\<close> is the argument \<open>sock\<close>, the event's
  \<open>gameCode\<close> is \<open>gc\<close>.
\<close>

subsection \<open>Memory and durable data\<close>

text \<open>
  \<open>MemoryPlayer\<close> and \<open>Game\<close> of \<open>types.ts\<close>.  \<open>status\<close> is kept as the string
  it is at run time: the handlers compare it with the lower-case literals, while
  \<open>reconstructGameState\<close> copies the durable store's upper-case value into it.
\<close>

record memoryPlayer =
  player_id :: string
  socketId :: string
  player_ships :: "ship list option"
  isReady :: "bool option"
  player_shots :: "shot list option"

record game =
  game_code :: string
  dbGameId :: string
  players :: "memoryPlayer list"
  status :: string
  currentTurn :: "string option"

text \<open>
  The rows of \<open>schema.prisma\<close>, each game with its players and shots as
  \<open>include: { players: true, shots: true }\<close> loads them.
\<close>

record dbShot = shot +
  playerId :: string

record dbPlayer =
  dbPlayer_id :: string
  isHost :: bool
  shipPlacements :: "shipPlacementData list option"

record dbGame =
  dbGame_id :: string
  code :: string
  dbStatus :: string
  dbPlayers :: "dbPlayer list"
  dbShots :: "dbShot list"
  currentTurnPlayerId :: "string option"
  winnerPlayerId :: "string option"

record clientGameState =
  cs_gameCode :: string
  cs_playerId :: string
  cs_opponentId :: "string option"
  cs_status :: string
  cs_ships :: "shipPlacementData list option"
  cs_isPlayerTurn :: bool
  cs_playerShots :: "shot list"
  cs_opponentShots :: "shot list"
  cs_winner :: "string option"

text \<open>
  The process state: the object \<open>games\<close> (game code to \<open>Game\<close>) and the durable
  store's table of games.  \<open>games[gameCode]\<close> is the lookup of an own key; a code
  that names a property of \<open>Object.prototype\<close> is not considered.
\<close>

record server =
  games :: "string \<Rightarrow> game option"
  db :: "dbGame list"

subsection \<open>Events\<close>

text \<open>
  Every \<open>error\<close> event carries one of these messages: \<open>Game not found\<close>,
  \<open>Game code '...' not found.\<close>, \<open>Game ... has already finished.\<close>,
  \<open>Failed to refetch game state for ....\<close>, \<open>Game ... is full.\<close>,
  \<open>Game ... has already started.\<close>, \<open>Failed to join game\<close>,
  \<open>Failed to create game\<close>, \<open>Player not found in game\<close>,
  \<open>Invalid ship placement\<close>, \<open>Failed to process ship placement\<close>,
  \<open>Players not found\<close>, \<open>Game not active\<close>, \<open>Not your turn\<close>,
  \<open>Target has no ships placed yet\<close>,
  \<open>Invalid shot (out of bounds or already taken)\<close>, \<open>Failed to process shot\<close>.
\<close>

datatype error =
    Game_not_found
  | Code_not_found string
  | Already_finished string
  | Refetch_failed string
  | Game_full string
  | Already_started string
  | Failed_to_join
  | Failed_to_create
  | Player_not_found
  | Invalid_ship_placement
  | Failed_to_process_ship_placement
  | Players_not_found
  | Game_not_active
  | Not_your_turn
  | Target_has_no_ships
  | Invalid_shot
  | Failed_to_process_shot

datatype message =
    Error error
  | Game_created string string
  | Game_state clientGameState
  | Game_state_players string string "string list"
  | Game_state_turn string string string
  | Opponent_placed_ships
  | Shot_result int int bool
  | Opponent_shot int int bool
  | Ship_sunk "string option"
  | Game_over string
  | Opponent_disconnected string

text \<open>
  What a handler does on the transport, in order: \<open>socket.emit\<close> (the caller only),
  \<open>socket.to(room).emit\<close> (the room without the caller), \<open>io.to(room).emit\<close>
  (the whole room) and \<open>socket.join(room)\<close>.
\<close>

datatype effect =
    Emit message
  | Broadcast string message
  | EmitAll string message
  | Join string

subsection \<open>The durable store's operations\<close>

text \<open>
  Each returns \<open>None\<close> where Prisma throws: \<open>update\<close> on a missing row,
  \<open>create\<close> against a missing parent row or a taken unique code.  A call can also
  fail for reasons outside the program; every handler takes a function \<open>ok\<close> whose
  value at \<open>k\<close> says whether its \<open>k\<close>-th store call gets through.
\<close>

definition findGameByCode :: "dbGame list \<Rightarrow> string \<Rightarrow> dbGame option" where
  "findGameByCode d c = find (\<lambda>g. code g = c) d"

definition findGameById :: "dbGame list \<Rightarrow> string \<Rightarrow> dbGame option" where
  "findGameById d i = find (\<lambda>g. dbGame_id g = i) d"

definition hasPlayer :: "string \<Rightarrow> dbGame list \<Rightarrow> bool" where
  "hasPlayer i d = list_ex (\<lambda>g. list_ex (\<lambda>p. dbPlayer_id p = i) (dbPlayers g)) d"

definition gameUpdate :: "string \<Rightarrow> (dbGame \<Rightarrow> dbGame) \<Rightarrow> dbGame list \<Rightarrow> dbGame list option" where
  "gameUpdate i f d =
     (if list_ex (\<lambda>g. dbGame_id g = i) d
      then Some (map (\<lambda>g. if dbGame_id g = i then f g else g) d)
      else None)"

definition playerUpdate :: "string \<Rightarrow> (dbPlayer \<Rightarrow> dbPlayer) \<Rightarrow> dbGame list \<Rightarrow> dbGame list option" where
  "playerUpdate i f d =
     (if hasPlayer i d
      then Some (map (\<lambda>g. g\<lparr>dbPlayers := map (\<lambda>p. if dbPlayer_id p = i then f p else p) (dbPlayers g)\<rparr>) d)
      else None)"

definition shotCreate :: "dbShot \<Rightarrow> string \<Rightarrow> dbGame list \<Rightarrow> dbGame list option" where
  "shotCreate sh i d =
     (if list_ex (\<lambda>g. dbGame_id g = i) d \<and> hasPlayer (playerId sh) d
      then Some (map (\<lambda>g. if dbGame_id g = i then g\<lparr>dbShots := dbShots g @ [sh]\<rparr> else g) d)
      else None)"

definition playerCreate :: "string \<Rightarrow> string \<Rightarrow> dbGame list \<Rightarrow> dbGame list option" where
  "playerCreate newId i d =
     (if list_ex (\<lambda>g. dbGame_id g = i) d
      then Some (map (\<lambda>g. if dbGame_id g = i
                           then g\<lparr>dbPlayers := dbPlayers g @
                                  [\<lparr>dbPlayer_id = newId, isHost = False, shipPlacements = None\<rparr>]\<rparr>
                           else g) d)
      else None)"

definition gameCreate :: "string \<Rightarrow> string \<Rightarrow> string \<Rightarrow> dbGame list \<Rightarrow> dbGame list option" where
  "gameCreate newGameId newPlayerId c d =
     (if list_ex (\<lambda>g. code g = c) d then None
      else Some (d @ [\<lparr>dbGame_id = newGameId, code = c, dbStatus = ''WAITING'',
                       dbPlayers = [\<lparr>dbPlayer_id = newPlayerId, isHost = True, shipPlacements = None\<rparr>],
                       dbShots = [], currentTurnPlayerId = None, winnerPlayerId = None\<rparr>]))"

definition attempt :: "bool \<Rightarrow> 'a option \<Rightarrow> 'a option" where
  "attempt through r = (if through then r else None)"

subsection \<open>Helpers for objects mutated in place\<close>

text \<open>
  \<open>Array.find\<close> returns the first matching object and the handlers then assign to its
  fields; \<open>updateFirst\<close> is that assignment on the list.
\<close>

fun updateFirst :: "('a \<Rightarrow> bool) \<Rightarrow> ('a \<Rightarrow> 'a) \<Rightarrow> 'a list \<Rightarrow> 'a list" where
  "updateFirst P f [] = []"
| "updateFirst P f (a # as) = (if P a then f a # as else a # updateFirst P f as)"

definition putGame :: "string \<Rightarrow> game \<Rightarrow> server \<Rightarrow> server" where
  "putGame gc g s = s\<lparr>games := (games s)(gc \<mapsto> g)\<rparr>"

definition toPlacement :: "ship \<Rightarrow> shipPlacementData" where
  "toPlacement s = \<lparr>ship_id = ship_id s, ship_name = ship_name s, ship_size = ship_size s,
                    ship_x = ship_x s, ship_y = ship_y s, isVertical = isVertical s\<rparr>"

definition toShot :: "dbShot \<Rightarrow> shot" where
  "toShot sh = \<lparr>shot_x = shot_x sh, shot_y = shot_y sh, shot_isHit = shot_isHit sh\<rparr>"

subsection \<open>reconstructGameState\<close>

text \<open>
  The hit count of one stored ship: the number of indices \<open>i < size\<close> whose cell some
  opponent shot marked as a hit.
\<close>

definition replayHits :: "dbShot list \<Rightarrow> shipPlacementData \<Rightarrow> int" where
  "replayHits opponentShots p =
     int (length (filter
       (\<lambda>i. list_ex (\<lambda>sh. shot_x sh = fst (shotCell p i) \<and> shot_y sh = snd (shotCell p i) \<and> shot_isHit sh)
               opponentShots)
       (sizeRange (ship_size p))))"

definition reconstructShip :: "dbShot list \<Rightarrow> shipPlacementData \<Rightarrow> ship" where
  "reconstructShip opponentShots p =
     \<lparr>ship_id = ship_id p, ship_name = ship_name p, ship_size = ship_size p,
      ship_x = ship_x p, ship_y = ship_y p, isVertical = isVertical p,
      isPlaced = True, hits = Some (replayHits opponentShots p)\<rparr>"

definition reconstructPlayer :: "dbGame \<Rightarrow> dbPlayer \<Rightarrow> memoryPlayer" where
  "reconstructPlayer dbG dbP =
     \<lparr>player_id = dbPlayer_id dbP,
      socketId = ''unknown'',
      player_ships =
        (case shipPlacements dbP of
           None \<Rightarrow> None
         | Some placements \<Rightarrow>
             Some (map (reconstructShip (filter (\<lambda>sh. playerId sh \<noteq> dbPlayer_id dbP) (dbShots dbG)))
                       placements)),
      isReady = Some (shipPlacements dbP \<noteq> None),
      player_shots = Some (map toShot (filter (\<lambda>sh. playerId sh = dbPlayer_id dbP) (dbShots dbG)))\<rparr>"

definition reconstructGameState :: "dbGame \<Rightarrow> string \<Rightarrow> game" where
  "reconstructGameState dbG gc =
     \<lparr>game_code = gc, dbGameId = dbGame_id dbG,
      players = map (reconstructPlayer dbG) (dbPlayers dbG),
      status = dbStatus dbG,
      currentTurn = currentTurnPlayerId dbG\<rparr>"

subsection \<open>generateGameCode\<close>

text \<open>
  \<open>code = Math.random().toString(36).substring(2, 8).toUpperCase()\<close>, repeated
  \<open>while (games[code])\<close>.  The successive values of
  \<open>Math.random().toString(36)\<close> are the list \<open>draws\<close>; the loop is the recursion
  over it, and \<open>None\<close> says that it has not returned within the draws given.  The
  strings are digits of base 36 and a dot, on which \<open>toUpperCase\<close> changes the
  letters \<open>a\<close> to \<open>z\<close> only.
\<close>

definition toUpperChar :: "char \<Rightarrow> char" where
  "toUpperChar c =
     (case map_of (zip ''abcdefghijklmnopqrstuvwxyz'' ''ABCDEFGHIJKLMNOPQRSTUVWXYZ'') c of
        None \<Rightarrow> c
      | Some u \<Rightarrow> u)"

definition toUpperCase :: "string \<Rightarrow> string" where
  "toUpperCase str = map toUpperChar str"

definition substring :: "nat \<Rightarrow> nat \<Rightarrow> string \<Rightarrow> string" where
  "substring a b str = take (b - a) (drop a str)"

fun generateGameCode :: "string list \<Rightarrow> (string \<Rightarrow> game option) \<Rightarrow> string option" where
  "generateGameCode [] live = None"
| "generateGameCode (r # rs) live =
     (if live (toUpperCase (substring 2 8 r)) \<noteq> None then generateGameCode rs live
      else Some (toUpperCase (substring 2 8 r)))"

subsection \<open>create\_game\<close>

text \<open>
  \<open>newGameId\<close> and \<open>newPlayerId\<close> are the ids the store gives the created rows.
\<close>

definition create_game ::
  "(nat \<Rightarrow> bool) \<Rightarrow> string list \<Rightarrow> string \<Rightarrow> string \<Rightarrow> string \<Rightarrow> server \<Rightarrow> (effect list \<times> server) option" where
  "create_game ok draws newGameId newPlayerId sock s =
     (case generateGameCode draws (games s) of
        None \<Rightarrow> None
      | Some gc \<Rightarrow>
          Some (case attempt (ok 0) (gameCreate newGameId newPlayerId gc (db s)) of
                  None \<Rightarrow> ([Emit (Error Failed_to_create)], s)
                | Some d1 \<Rightarrow>
                    ([Join gc, Emit (Game_created gc newPlayerId)],
                     putGame gc
                       \<lparr>game_code = gc, dbGameId = newGameId,
                        players = [\<lparr>player_id = newPlayerId, socketId = sock, player_ships = None,
                                    isReady = None, player_shots = None\<rparr>],
                        status = ''waiting'', currentTurn = None\<rparr>
                       (s\<lparr>db := d1\<rparr>))))"

subsection \<open>join\_game\<close>

text \<open>
  Step 2 of the player matching: the first durable player that is missing from memory or
  whose memory entry has the socket id \<open>unknown\<close> is bound to the caller's socket.
  The result is that durable player and the memory players after the assignment.
\<close>

fun rebind :: "string \<Rightarrow> dbPlayer list \<Rightarrow> memoryPlayer list \<Rightarrow> (dbPlayer \<times> memoryPlayer list) option" where
  "rebind sock [] mem = None"
| "rebind sock (dbP # rest) mem =
     (case find (\<lambda>p. player_id p = dbPlayer_id dbP) mem of
        None \<Rightarrow>
          Some (dbP, mem @ [\<lparr>player_id = dbPlayer_id dbP, socketId = sock, player_ships = None,
                             isReady = None, player_shots = None\<rparr>])
      | Some memP \<Rightarrow>
          if socketId memP = ''unknown''
          then Some (dbP, updateFirst (\<lambda>p. player_id p = dbPlayer_id dbP) (\<lambda>p. p\<lparr>socketId := sock\<rparr>) mem)
          else rebind sock rest mem)"

text \<open>
  Steps 1 and 2: the id of \<open>joiningPlayer\<close>, \<open>dbJoiningPlayer\<close>, and the game after
  the assignments.  In both steps the joining player's socket id is the caller's
  afterwards, so the later \<open>joiningPlayer.socketId = socket.id\<close> changes nothing.
\<close>

definition matchPlayer :: "string \<Rightarrow> dbGame \<Rightarrow> game \<Rightarrow> string option \<times> dbPlayer option \<times> game" where
  "matchPlayer sock dbG g =
     (case find (\<lambda>p. socketId p = sock) (players g) of
        Some joiningPlayer \<Rightarrow>
          (Some (player_id joiningPlayer),
           find (\<lambda>p. dbPlayer_id p = player_id joiningPlayer) (dbPlayers dbG), g)
      | None \<Rightarrow>
          (case rebind sock (dbPlayers dbG) (players g) of
             None \<Rightarrow> (None, None, g)
           | Some (dbP, mem') \<Rightarrow> (Some (dbPlayer_id dbP), Some dbP, g\<lparr>players := mem'\<rparr>)))"

definition fullGameState :: "string \<Rightarrow> string \<Rightarrow> dbPlayer \<Rightarrow> game \<Rightarrow> dbGame \<Rightarrow> clientGameState" where
  "fullGameState gc joiningId dbJoiningPlayer g latestDbGame =
     (let opponentId = map_option player_id (find (\<lambda>p. player_id p \<noteq> joiningId) (players g))
      in \<lparr>cs_gameCode = gc,
          cs_playerId = joiningId,
          cs_opponentId = opponentId,
          cs_status = dbStatus latestDbGame,
          cs_ships = shipPlacements dbJoiningPlayer,
          cs_isPlayerTurn = (currentTurnPlayerId latestDbGame = Some joiningId),
          cs_playerShots = map toShot (filter (\<lambda>sh. playerId sh = joiningId) (dbShots latestDbGame)),
          cs_opponentShots = map toShot (filter (\<lambda>sh. Some (playerId sh) = opponentId) (dbShots latestDbGame)),
          cs_winner = winnerPlayerId latestDbGame\<rparr>)"

text \<open>The branch \<open>Reconnection Confirmed\<close>; the refetch is the handler's second store call.\<close>

definition rejoin :: "(nat \<Rightarrow> bool) \<Rightarrow> string \<Rightarrow> string \<Rightarrow> dbPlayer \<Rightarrow> game \<Rightarrow> server \<Rightarrow> effect list \<times> server" where
  "rejoin ok gc joiningId dbJoiningPlayer g s =
     (if \<not> ok 1 then ([Join gc, Emit (Error Failed_to_join)], putGame gc g s)
      else case findGameById (db s) (dbGameId g) of
             None \<Rightarrow> ([Join gc, Emit (Error (Refetch_failed gc))], putGame gc g s)
           | Some latestDbGame \<Rightarrow>
               ([Join gc, Emit (Game_state (fullGameState gc joiningId dbJoiningPlayer g latestDbGame))],
                putGame gc g s))"

text \<open>The branch \<open>New Player Joining Logic\<close>.\<close>

definition joinNew :: "(nat \<Rightarrow> bool) \<Rightarrow> string \<Rightarrow> string \<Rightarrow> string \<Rightarrow> dbGame \<Rightarrow> game \<Rightarrow> server \<Rightarrow> effect list \<times> server" where
  "joinNew ok newId sock gc dbG g s =
     (if length (players g) \<ge> 2 then ([Emit (Error (Game_full gc))], putGame gc g s)
      else if dbStatus dbG \<noteq> ''WAITING'' then ([Emit (Error (Already_started gc))], putGame gc g s)
      else case attempt (ok 1) (playerCreate newId (dbGame_id dbG) (db s)) of
             None \<Rightarrow> ([Emit (Error Failed_to_join)], putGame gc g s)
           | Some d1 \<Rightarrow>
              (case attempt (ok 2) (gameUpdate (dbGame_id dbG) (\<lambda>r. r\<lparr>dbStatus := ''PLACING_SHIPS''\<rparr>) d1) of
                 None \<Rightarrow> ([Emit (Error Failed_to_join)], putGame gc g (s\<lparr>db := d1\<rparr>))
               | Some d2 \<Rightarrow>
                   (let g' = g\<lparr>players := players g @
                                  [\<lparr>player_id = newId, socketId = sock, player_ships = None,
                                    isReady = None, player_shots = None\<rparr>],
                               status := ''placing_ships''\<rparr>
                    in ([Join gc, EmitAll gc (Game_state_players gc ''placing_ships'' (map player_id (players g')))],
                        putGame gc g' (s\<lparr>db := d2\<rparr>)))))"

definition join_game :: "(nat \<Rightarrow> bool) \<Rightarrow> string \<Rightarrow> string \<Rightarrow> string \<Rightarrow> server \<Rightarrow> effect list \<times> server" where
  "join_game ok newId sock gc s =
     (if \<not> ok 0 then ([Emit (Error Failed_to_join)], s)
      else case findGameByCode (db s) gc of
             None \<Rightarrow> ([Emit (Error (Code_not_found gc))], s)
           | Some dbG \<Rightarrow>
               if dbStatus dbG = ''FINISHED'' then ([Emit (Error (Already_finished gc))], s)
               else (case matchPlayer sock dbG
                            (case games s gc of None \<Rightarrow> reconstructGameState dbG gc | Some g \<Rightarrow> g) of
                       (Some joiningId, Some dbJoiningPlayer, g') \<Rightarrow> rejoin ok gc joiningId dbJoiningPlayer g' s
                     | (_, _, g') \<Rightarrow> joinNew ok newId sock gc dbG g' s))"

subsection \<open>ships\_placed\<close>

text \<open>\<open>coin\<close> is \<open>Math.random() < 0.5\<close>.\<close>

definition ships_placed :: "(nat \<Rightarrow> bool) \<Rightarrow> bool \<Rightarrow> string \<Rightarrow> string \<Rightarrow> ship list \<Rightarrow> server \<Rightarrow> effect list \<times> server" where
  "ships_placed ok coin sock gc fleet s =
     (case games s gc of
        None \<Rightarrow> ([Emit (Error Game_not_found)], s)
      | Some g \<Rightarrow>
         (case find (\<lambda>p. socketId p = sock) (players g) of
            None \<Rightarrow> ([Emit (Error Player_not_found)], s)
          | Some player \<Rightarrow>
              if \<not> validateShipPlacement (map (\<lambda>sh. sh\<lparr>isPlaced := True\<rparr>) fleet)
              then ([Emit (Error Invalid_ship_placement)], s)
              else (case attempt (ok 0)
                           (playerUpdate (player_id player)
                              (\<lambda>p. p\<lparr>shipPlacements := Some (map toPlacement fleet)\<rparr>) (db s)) of
                      None \<Rightarrow> ([Emit (Error Failed_to_process_ship_placement)], s)
                    | Some d1 \<Rightarrow>
                       (let g1 = g\<lparr>players := updateFirst (\<lambda>p. socketId p = sock)
                                     (\<lambda>p. p\<lparr>player_ships := Some (map (\<lambda>sh. sh\<lparr>hits := Some 0\<rparr>) fleet),
                                            isReady := Some True\<rparr>)
                                     (players g)\<rparr>
                        in if length (players g1) = 2 \<and> list_all (\<lambda>p. isReady p = Some True) (players g1)
                           then (let firstPlayer = players g1 ! (if coin then 0 else 1);
                                     g2 = g1\<lparr>status := ''active'', currentTurn := Some (player_id firstPlayer)\<rparr>
                                 in case attempt (ok 1)
                                           (gameUpdate (dbGameId g)
                                              (\<lambda>r. r\<lparr>dbStatus := ''ACTIVE'',
                                                     currentTurnPlayerId := Some (player_id firstPlayer)\<rparr>) d1) of
                                      None \<Rightarrow>
                                        ([Broadcast gc Opponent_placed_ships,
                                          Emit (Error Failed_to_process_ship_placement)],
                                         putGame gc g2 (s\<lparr>db := d1\<rparr>))
                                    | Some d2 \<Rightarrow>
                                        ([Broadcast gc Opponent_placed_ships,
                                          EmitAll gc (Game_state_turn gc ''active'' (player_id firstPlayer))],
                                         putGame gc g2 (s\<lparr>db := d2\<rparr>)))
                           else ([Broadcast gc Opponent_placed_ships], putGame gc g1 (s\<lparr>db := d1\<rparr>))))))"

subsection \<open>fire\_shot\<close>

definition shotsOf :: "memoryPlayer \<Rightarrow> shot list" where
  "shotsOf p = (case player_shots p of None \<Rightarrow> [] | Some xs \<Rightarrow> xs)"

text \<open>
  After the store has taken the shot: the events to both players, then either the end
  of the game or the switch of the turn, each with its own store call.  \<open>g\<close> is the game
  with the shot already in memory.
\<close>

definition fire_persisted ::
  "(nat \<Rightarrow> bool) \<Rightarrow> string \<Rightarrow> int \<Rightarrow> int \<Rightarrow> processShotResult \<Rightarrow> memoryPlayer \<Rightarrow> memoryPlayer \<Rightarrow>
     game \<Rightarrow> dbGame list \<Rightarrow> server \<Rightarrow> effect list \<times> server" where
  "fire_persisted ok gc x y shotResult shooter target g d1 s =
     (let told = [Emit (Shot_result x y (isHit shotResult)), Broadcast gc (Opponent_shot x y (isHit shotResult))]
                 @ (if isSunk shotResult then [Emit (Ship_sunk (hitShipId shotResult))] else [])
      in if isSunk shotResult \<and> isWin shotResult
         then (case attempt (ok 1)
                      (gameUpdate (dbGameId g)
                         (\<lambda>r. r\<lparr>dbStatus := ''FINISHED'', winnerPlayerId := Some (player_id shooter),
                                currentTurnPlayerId := None\<rparr>) d1) of
                 None \<Rightarrow> (told @ [Emit (Error Failed_to_process_shot)],
                           putGame gc (g\<lparr>status := ''finished''\<rparr>) (s\<lparr>db := d1\<rparr>))
               | Some d2 \<Rightarrow> (told @ [EmitAll gc (Game_over (player_id shooter))],
                              putGame gc (g\<lparr>status := ''finished''\<rparr>) (s\<lparr>db := d2\<rparr>)))
         else (case attempt (ok 1)
                      (gameUpdate (dbGameId g)
                         (\<lambda>r. r\<lparr>currentTurnPlayerId := Some (player_id target)\<rparr>) d1) of
                 None \<Rightarrow> (told @ [Emit (Error Failed_to_process_shot)],
                           putGame gc (g\<lparr>currentTurn := Some (player_id target)\<rparr>) (s\<lparr>db := d1\<rparr>))
               | Some d2 \<Rightarrow> (told,
                              putGame gc (g\<lparr>currentTurn := Some (player_id target)\<rparr>) (s\<lparr>db := d2\<rparr>))))"

text \<open>
  From \<open>if (!shooter.shots) shooter.shots = []\<close> on.  \<open>checkShot\<close> changes the
  target's fleet and the shot is pushed on the shooter's history before the store is
  called.
\<close>

definition fire_checked ::
  "(nat \<Rightarrow> bool) \<Rightarrow> string \<Rightarrow> string \<Rightarrow> int \<Rightarrow> int \<Rightarrow> memoryPlayer \<Rightarrow> memoryPlayer \<Rightarrow>
     game \<Rightarrow> server \<Rightarrow> effect list \<times> server" where
  "fire_checked ok sock gc x y shooter target g s =
     (let g1 = g\<lparr>players := updateFirst (\<lambda>p. socketId p = sock)
                   (\<lambda>p. p\<lparr>player_shots := Some (shotsOf p)\<rparr>) (players g)\<rparr>
      in case player_ships target of
           None \<Rightarrow> ([Emit (Error Target_has_no_ships)], putGame gc g1 s)
         | Some targetShips \<Rightarrow>
             if \<not> validateShot x y (shotsOf shooter)
             then ([Emit (Error Invalid_shot)], putGame gc g1 s)
             else (case checkShot x y targetShips of
                     (shotResult, targetShips') \<Rightarrow>
                       (let g2 = g1\<lparr>players := updateFirst (\<lambda>p. player_id p \<noteq> player_id shooter)
                                     (\<lambda>p. p\<lparr>player_ships := Some targetShips'\<rparr>) (players g1)\<rparr>;
                            g3 = g2\<lparr>players := updateFirst (\<lambda>p. socketId p = sock)
                                     (\<lambda>p. p\<lparr>player_shots := Some (shotsOf shooter @
                                              [\<lparr>shot_x = x, shot_y = y, shot_isHit = isHit shotResult\<rparr>])\<rparr>)
                                     (players g2)\<rparr>
                        in case attempt (ok 0)
                                  (shotCreate \<lparr>shot_x = x, shot_y = y, shot_isHit = isHit shotResult,
                                               playerId = player_id shooter\<rparr> (dbGameId g) (db s)) of
                             None \<Rightarrow> ([Emit (Error Failed_to_process_shot)], putGame gc g3 s)
                           | Some d1 \<Rightarrow> fire_persisted ok gc x y shotResult shooter target g3 d1 s)))"

definition fire_shot :: "(nat \<Rightarrow> bool) \<Rightarrow> string \<Rightarrow> string \<Rightarrow> int \<Rightarrow> int \<Rightarrow> server \<Rightarrow> effect list \<times> server" where
  "fire_shot ok sock gc x y s =
     (case games s gc of
        None \<Rightarrow> ([Emit (Error Game_not_found)], s)
      | Some g \<Rightarrow>
         (case find (\<lambda>p. socketId p = sock) (players g) of
            None \<Rightarrow> ([Emit (Error Players_not_found)], s)
          | Some shooter \<Rightarrow>
             (case find (\<lambda>p. player_id p \<noteq> player_id shooter) (players g) of
                None \<Rightarrow> ([Emit (Error Players_not_found)], s)
              | Some target \<Rightarrow>
                  if status g \<noteq> ''active'' then ([Emit (Error Game_not_active)], s)
                  else if currentTurn g \<noteq> Some (player_id shooter) then ([Emit (Error Not_your_turn)], s)
                  else fire_checked ok sock gc x y shooter target g s)))"

subsection \<open>disconnect\<close>

text \<open>
  \<open>for (const gameCode in games)\<close> visits the keys of \<open>games\<close> in the engine's
  property order, here the list \<open>codes\<close>; the first game holding a player with the
  caller's socket id gets that id replaced by \<open>'disconnected\_' + Date.now()\<close>, whose
  digits are \<open>now\<close>, and the loop stops.
\<close>

fun disconnect :: "string \<Rightarrow> string list \<Rightarrow> string \<Rightarrow> server \<Rightarrow> effect list \<times> server" where
  "disconnect now [] sock s = ([], s)"
| "disconnect now (gc # codes) sock s =
     (case games s gc of
        None \<Rightarrow> disconnect now codes sock s
      | Some g \<Rightarrow>
         (case find (\<lambda>p. socketId p = sock) (players g) of
            None \<Rightarrow> disconnect now codes sock s
          | Some p \<Rightarrow>
              ([Broadcast gc (Opponent_disconnected (player_id p))],
               putGame gc (g\<lparr>players := updateFirst (\<lambda>p. socketId p = sock)
                                          (\<lambda>p. p\<lparr>socketId := ''disconnected_'' @ now\<rparr>) (players g)\<rparr>) s)))"

section \<open>A game played through the handlers\<close>

text \<open>
  The two ships of the \<open>checkShot\<close> tests in \<open>game-logic.test.ts\<close>:
  \<open>createShip('destroyer', 2, 0, 0, false)\<close> and
  \<open>createShip('submarine', 3, 2, 2, true)\<close>.
\<close>

definition destroyer :: ship where
  "destroyer = \<lparr>ship_id = ''destroyer'', ship_name = ''Destroyer'', ship_size = 2,
                 ship_x = 0, ship_y = 0, isVertical = False, isPlaced = True, hits = Some 0\<rparr>"

definition submarine :: ship where
  "submarine = \<lparr>ship_id = ''submarine'', ship_name = ''Submarine'', ship_size = 3,
                 ship_x = 2, ship_y = 2, isVertical = True, isPlaced = True, hits = Some 0\<rparr>"

definition allOk :: "nat \<Rightarrow> bool" where
  "allOk k = True"

definition noneOk :: "nat \<Rightarrow> bool" where
  "noneOk k = False"

definition emptyServer :: server where
  "emptyServer = \<lparr>games = (\<lambda>c. None), db = []\<rparr>"

text \<open>
  A client on socket \<open>sockA\<close> creates a game (the draw \<open>0.abc123xyz\<close> gives the code
  \<open>ABC123\<close>) and a client on \<open>sockB\<close> joins it.
\<close>

definition exCreated :: server where
  "exCreated = (case create_game allOk [''0.abc123xyz''] ''g1'' ''p1'' ''sockA'' emptyServer of
                  None \<Rightarrow> emptyServer | Some r \<Rightarrow> snd r)"

definition exJoined :: server where
  "exJoined = snd (join_game allOk ''p2'' ''sockB'' ''ABC123'' exCreated)"

text \<open>Both place the destroyer and the submarine; the first turn falls to \<open>p1\<close>.\<close>

definition exActive :: server where
  "exActive = snd (ships_placed allOk True ''sockB'' ''ABC123'' [destroyer, submarine]
                (snd (ships_placed allOk True ''sockA'' ''ABC123'' [destroyer, submarine] exJoined)))"

text \<open>\<open>p1\<close> fires at \<open>(2,2)\<close>, the origin of \<open>p2\<close>'s submarine.\<close>

definition exShot :: server where
  "exShot = snd (fire_shot allOk ''sockA'' ''ABC123'' 2 2 exActive)"

text \<open>
  A second game from the same start in which both place the destroyer alone:
  \<open>p1\<close> fires at \<open>(0,0)\<close>, \<open>p2\<close> at \<open>(5,5)\<close>, \<open>p1\<close> at \<open>(1,1)\<close>.
\<close>

definition exDuel :: server where
  "exDuel = snd (ships_placed allOk True ''sockB'' ''ABC123'' [destroyer]
              (snd (ships_placed allOk True ''sockA'' ''ABC123'' [destroyer] exJoined)))"

definition exLastTurn :: server where
  "exLastTurn = snd (fire_shot allOk ''sockB'' ''ABC123'' 5 5
                  (snd (fire_shot allOk ''sockA'' ''ABC123'' 0 0 exDuel)))"

definition exFinished :: server where
  "exFinished = snd (fire_shot allOk ''sockA'' ''ABC123'' 1 1 exLastTurn)"

text \<open>The host's connection drops after the second player has joined.\<close>

definition exDropped :: server where
  "exDropped = snd (disconnect ''1700000000000'' [''ABC123''] ''sockA'' exJoined)"

text \<open>The per-ship hit counters of one player's fleet in a game.\<close>

definition hitCounts :: "string \<Rightarrow> game \<Rightarrow> int option list option" where
  "hitCounts pid g =
     (case find (\<lambda>p. player_id p = pid) (players g) of
        None \<Rightarrow> None
      | Some p \<Rightarrow> map_option (map hits) (player_ships p))"

definition shotHistory :: "string \<Rightarrow> game \<Rightarrow> shot list option" where
  "shotHistory pid g =
     (case find (\<lambda>p. player_id p = pid) (players g) of
        None \<Rightarrow> None
      | Some p \<Rightarrow> player_shots p)"

text \<open>A store that takes the first call of a handler and fails every later one.\<close>

definition firstOnly :: "nat \<Rightarrow> bool" where
  "firstOnly k = (k = 0)"

text \<open>
  The game \<open>exLastTurn\<close> written out: its Session with the two players, and its row in
  the store.
\<close>

definition exShooter :: memoryPlayer where
  "exShooter = \<lparr>player_id = ''p1'', socketId = ''sockA'', player_ships = Some [destroyer],
                 isReady = Some True,
                 player_shots = Some [\<lparr>shot_x = 0, shot_y = 0, shot_isHit = True\<rparr>]\<rparr>"

definition exTarget :: memoryPlayer where
  "exTarget = \<lparr>player_id = ''p2'', socketId = ''sockB'',
                player_ships = Some [destroyer\<lparr>hits := Some 1\<rparr>],
                isReady = Some True,
                player_shots = Some [\<lparr>shot_x = 5, shot_y = 5, shot_isHit = False\<rparr>]\<rparr>"

definition exLastTurnGame :: game where
  "exLastTurnGame = \<lparr>game_code = ''ABC123'', dbGameId = ''g1'', players = [exShooter, exTarget],
                      status = ''active'', currentTurn = Some ''p1''\<rparr>"

definition exLastTurnRow :: dbGame where
  "exLastTurnRow =
     \<lparr>dbGame_id = ''g1'', code = ''ABC123'', dbStatus = ''ACTIVE'',
      dbPlayers = [\<lparr>dbPlayer_id = ''p1'', isHost = True, shipPlacements = Some [toPlacement destroyer]\<rparr>,
                   \<lparr>dbPlayer_id = ''p2'', isHost = False, shipPlacements = Some [toPlacement destroyer]\<rparr>],
      dbShots = [\<lparr>shot_x = 0, shot_y = 0, shot_isHit = True, playerId = ''p1''\<rparr>,
                 \<lparr>shot_x = 5, shot_y = 5, shot_isHit = False, playerId = ''p2''\<rparr>],
      currentTurnPlayerId = Some ''p1'', winnerPlayerId = None\<rparr>"

text \<open>
  The process restarts with the store of \<open>exLastTurn\<close> and an empty memory, and
  \<open>p1\<close>'s client joins again on the new socket \<open>sockA2\<close>.
\<close>

definition exRestarted :: server where
  "exRestarted = snd (join_game allOk ''p3'' ''sockA2'' ''ABC123''
                   \<lparr>games = (\<lambda>c. None), db = db exLastTurn\<rparr>)"

section \<open>Properties of the board rules\<close>

lemma scanFleet_miss:
  "\<not> list_ex (coversShot x y) targetShips \<Longrightarrow> scanFleet x y targetShips = (None, targetShips)"
  by (induction targetShips) auto

lemma scanFleet_hit_iff:
  "(fst (scanFleet x y targetShips) \<noteq> None) = list_ex (coversShot x y) targetShips"
  by (induction targetShips) (auto split: prod.splits)

lemma checkShot_isHit:
  "isHit (fst (checkShot x y targetShips)) = list_ex (coversShot x y) targetShips"
proof (cases "scanFleet x y targetShips")
  case (Pair hitShip targetShips')
  with scanFleet_hit_iff [of x y targetShips] show ?thesis
    by (simp add: checkShot_def Let_def)
qed

lemma checkShot_isWin_isSunk:
  "isWin (fst (checkShot x y targetShips)) \<Longrightarrow> isSunk (fst (checkShot x y targetShips))"
  by (simp add: checkShot_def Let_def split: prod.splits if_splits)

text \<open>
  C9.  \<open>validateShot\<close> returns false exactly when \<open>x\<close> or \<open>y\<close> lies outside
  \<open>[0,9]\<close> or \<open>(x,y)\<close> already appears in the history, and true in every other
  case.  It is a function of its three arguments alone and returns only the boolean, so
  the history is the same after the call.
\<close>

theorem validateShot_rejects_exactly:
  "validateShot x y existingShots =
     (\<not> (x < 0 \<or> 9 < x \<or> y < 0 \<or> 9 < y \<or> (x, y) \<in> (\<lambda>s. (shot_x s, shot_y s)) ` set existingShots))"
  by (auto simp: validateShot_def GRID_SIZE_def list_ex_iff)

theorem validateShot_rejects_exactly_witness:
  "validateShot 1 1 [\<lparr>shot_x = 0, shot_y = 0, shot_isHit = True\<rparr>, \<lparr>shot_x = 5, shot_y = 5, shot_isHit = False\<rparr>]
   \<and> \<not> validateShot 5 5 [\<lparr>shot_x = 0, shot_y = 0, shot_isHit = True\<rparr>, \<lparr>shot_x = 5, shot_y = 5, shot_isHit = False\<rparr>]
   \<and> \<not> validateShot 10 5 [\<lparr>shot_x = 0, shot_y = 0, shot_isHit = True\<rparr>, \<lparr>shot_x = 5, shot_y = 5, shot_isHit = False\<rparr>]"
  by (simp add: validateShot_rejects_exactly)

text \<open>
  C10.  At a coordinate where the scan of \<open>checkShot\<close> finds no ship cell, the result
  is \<open>isHit = false\<close>, \<open>isSunk = false\<close>, \<open>isWin = false\<close> with no
  \<open>hitShipId\<close>, and the fleet after the call is the fleet before it: no ship's
  \<open>hits\<close> has changed.
\<close>

theorem checkShot_miss_changes_nothing:
  "\<not> list_ex (coversShot x y) targetShips \<Longrightarrow>
     checkShot x y targetShips =
       (\<lparr>isHit = False, hitShipId = None, isSunk = False, isWin = False\<rparr>, targetShips)"
  by (simp add: checkShot_def scanFleet_miss)

theorem checkShot_miss_changes_nothing_witness:
  "\<not> list_ex (coversShot 5 5) [destroyer, submarine] \<and>
   checkShot 5 5 [destroyer, submarine] =
     (\<lparr>isHit = False, hitShipId = None, isSunk = False, isWin = False\<rparr>, [destroyer, submarine])"
proof -
  have miss: "\<not> list_ex (coversShot 5 5) [destroyer, submarine]"
    by code_simp
  from miss checkShot_miss_changes_nothing [OF miss] show ?thesis
    by simp
qed

lemma scanFleet_first_hit:
  "\<not> list_ex (coversShot x y) before \<Longrightarrow> coversShot x y s \<Longrightarrow>
     scanFleet x y (before @ s # after) = (Some (recordHit s), before @ recordHit s # after)"
  by (induction before) auto

text \<open>
  On a hit, the first ship that \<open>checkShot\<close> matches gets its counter raised by one and
  is the ship reported; the others are unchanged.
\<close>

lemma checkShot_hit_increments_first:
  assumes "\<not> list_ex (coversShot x y) before" and "coversShot x y s"
  shows "snd (checkShot x y (before @ s # after)) = before @ s\<lparr>hits := Some (hitsOrZero s + 1)\<rparr> # after \<and>
         hitShipId (fst (checkShot x y (before @ s # after))) = Some (ship_id s) \<and>
         isHit (fst (checkShot x y (before @ s # after)))"
  using scanFleet_first_hit [OF assms, of after]
  by (simp add: checkShot_def Let_def recordHit_def)

text \<open>
  What \<open>checkShot\<close> calls sunk and won: the matched ship's counter, raised by one,
  equals its size; and, for a win, every other ship's counter has reached its size.
\<close>

lemma checkShot_hit_sunk_win:
  assumes "\<not> list_ex (coversShot x y) before" and "coversShot x y s"
  shows "isSunk (fst (checkShot x y (before @ s # after))) = (hitsOrZero s + 1 = ship_size s) \<and>
         isWin (fst (checkShot x y (before @ s # after))) =
           (hitsOrZero s + 1 = ship_size s \<and>
            list_all (\<lambda>t. ship_size t \<le> hitsOrZero t) before \<and>
            list_all (\<lambda>t. ship_size t \<le> hitsOrZero t) after)"
  using scanFleet_first_hit [OF assms, of after]
  by (auto simp: checkShot_def Let_def recordHit_def hitsOrZero_def)

text \<open>
  C2 does not hold of the code.  The destroyer of the tests lies horizontally at
  \<open>(0,0)\<close> with size 2, so it occupies \<open>(0,0)\<close> and \<open>(1,0)\<close> by the cells of
  \<open>validateShipPlacement\<close>; \<open>checkShot\<close> reports a miss at \<open>(1,0)\<close> and a hit at
  \<open>(1,1)\<close>.  The vertical submarine at \<open>(2,2)\<close> occupies \<open>(2,3)\<close>, where
  \<open>checkShot\<close> reports a miss as well.
\<close>

theorem checkShot_misses_occupied_cell:
  "validateShipPlacement [destroyer, submarine] \<and>
   (1, 0) \<in> set (placementCells destroyer) \<and>
   checkShot 1 0 [destroyer, submarine] =
     (\<lparr>isHit = False, hitShipId = None, isSunk = False, isWin = False\<rparr>, [destroyer, submarine]) \<and>
   (1, 1) \<notin> set (placementCells destroyer) \<and>
   isHit (fst (checkShot 1 1 [destroyer, submarine])) \<and>
   (2, 3) \<in> set (placementCells submarine) \<and>
   \<not> isHit (fst (checkShot 2 3 [destroyer, submarine]))"
  by code_simp

section \<open>Properties of the session coordinator\<close>

text \<open>
  C1 does not hold of the code.  In the game \<open>exShot\<close> the only shot is the one of
  \<open>p1\<close> at \<open>(2,2)\<close>; it is recorded as a hit.  The Session in memory, on which
  \<open>checkShot\<close> ran, counts one hit on \<open>p2\<close>'s submarine;
  \<open>reconstructGameState\<close> on the stored record counts three.
\<close>

theorem reconstructed_hits_differ_from_memory:
  "validateShipPlacement [destroyer, submarine] \<and>
   map_option dbShots (findGameByCode (db exShot) ''ABC123'') =
     Some [\<lparr>shot_x = 2, shot_y = 2, shot_isHit = True, playerId = ''p1''\<rparr>] \<and>
   map_option (hitCounts ''p2'') (games exShot ''ABC123'') = Some (Some [Some 0, Some 1]) \<and>
   map_option (\<lambda>r. hitCounts ''p2'' (reconstructGameState r ''ABC123'')) (findGameByCode (db exShot) ''ABC123'') =
     Some (Some [Some 0, Some 3])"
  by code_simp

text \<open>
  C8 does not hold of the code.  When \<open>Math.random()\<close> returns \<open>0.5\<close>,
  \<open>toString(36)\<close> is \<open>0.i\<close> and the generated code is the one character \<open>I\<close>.
\<close>

theorem generateGameCode_short_code:
  "generateGameCode [''0.i''] (games emptyServer) = Some ''I'' \<and>
   map_option length (generateGameCode [''0.i''] (games emptyServer)) = Some 1"
  by code_simp

lemma generateGameCode_not_live:
  "generateGameCode draws live = Some c \<Longrightarrow> live c = None"
  by (induction draws) (auto split: if_splits)

lemma generateGameCode_at_most_six:
  "generateGameCode draws live = Some c \<Longrightarrow> length c \<le> 6"
  by (induction draws) (auto simp: toUpperCase_def substring_def split: if_splits)

lemma generateGameCode_chars:
  assumes "generateGameCode draws live = Some c"
    and "\<forall>r \<in> set draws. set (drop 2 r) \<subseteq> L"
    and "\<forall>ch \<in> L. toUpperChar ch \<in> U"
  shows "set c \<subseteq> U"
  using assms(1,2)
proof (induction draws)
  case Nil
  then show ?case by simp
next
  case (Cons r rs)
  have "set (take 6 (drop 2 r)) \<subseteq> L"
    using Cons.prems(2) set_take_subset [of 6 "drop 2 r"] by auto
  with assms(3) have here: "set (toUpperCase (substring 2 8 r)) \<subseteq> U"
    by (auto simp: toUpperCase_def substring_def)
  show ?case
  proof (cases "live (toUpperCase (substring 2 8 r)) \<noteq> None")
    case True
    with Cons show ?thesis by simp
  next
    case False
    with Cons.prems(1) here show ?thesis by simp
  qed
qed

lemma toUpperChar_base36:
  "\<forall>ch \<in> set ''0123456789abcdefghijklmnopqrstuvwxyz''.
     toUpperChar ch \<in> set ''0123456789ABCDEFGHIJKLMNOPQRSTUVWXYZ''"
proof -
  have "list_all (\<lambda>ch. List.member ''0123456789ABCDEFGHIJKLMNOPQRSTUVWXYZ'' (toUpperChar ch))
          ''0123456789abcdefghijklmnopqrstuvwxyz''"
    by code_simp
  then show ?thesis
    by (simp only: list_all_iff List.member_iff)
qed

text \<open>
  When every draw has base-36 digits after its first two characters, every character of
  the code is one of \<open>0-9A-Z\<close>.
\<close>

lemma generateGameCode_base36:
  assumes "generateGameCode draws live = Some c"
    and "\<forall>r \<in> set draws. set (drop 2 r) \<subseteq> set ''0123456789abcdefghijklmnopqrstuvwxyz''"
  shows "set c \<subseteq> set ''0123456789ABCDEFGHIJKLMNOPQRSTUVWXYZ''"
  using assms toUpperChar_base36 by (rule generateGameCode_chars)

text \<open>
  C4 does not hold of the code.  After the host's disconnect the host's memory entry has the
  socket id \<open>disconnected_1700000000000\<close>, which is neither the caller's id nor
  \<open>unknown\<close>: a join on a new socket is answered with \<open>Game ... is full\<close> and binds
  nobody.  When the host drops while still alone, the join on a new socket creates a
  second durable player instead of rebinding the first.
\<close>

theorem join_after_disconnect_not_rebound:
  "map_option (\<lambda>g. map socketId (players g)) (games exDropped ''ABC123'') =
     Some [''disconnected_1700000000000'', ''sockB''] \<and>
   fst (join_game allOk ''p3'' ''sockC'' ''ABC123'' exDropped) = [Emit (Error (Game_full ''ABC123''))] \<and>
   games (snd (join_game allOk ''p3'' ''sockC'' ''ABC123'' exDropped)) ''ABC123'' = games exDropped ''ABC123'' \<and>
   map_option (\<lambda>g. map (\<lambda>p. (player_id p, socketId p)) (players g))
     (games (snd (join_game allOk ''p3'' ''sockC'' ''ABC123''
                   (snd (disconnect ''1700000000000'' [''ABC123''] ''sockA'' exCreated)))) ''ABC123'') =
     Some [(''p1'', ''disconnected_1700000000000''), (''p3'', ''sockC'')]"
  by code_simp

text \<open>
  C5 does not hold of the code.  \<open>exFinished\<close> is reached through the handlers and has
  the status \<open>finished\<close>; a \<open>ships_placed\<close> request of \<open>p2\<close> moves it back to
  \<open>active\<close>.
\<close>

theorem ships_placed_reopens_finished_game:
  "map_option status (games exFinished ''ABC123'') = Some ''finished'' \<and>
   map_option status
     (games (snd (ships_placed allOk True ''sockB'' ''ABC123'' [destroyer] exFinished)) ''ABC123'') =
     Some ''active''"
  by code_simp

text \<open>
  The other handlers that act on a Session in memory keep its status or, for
  \<open>fire_shot\<close>, move an active game to finished.
\<close>

lemma disconnect_keeps_status:
  "map_option status (games (snd (disconnect now codes sock s)) c) = map_option status (games s c)"
  by (induction codes) (auto simp: putGame_def split: option.splits)

lemma fire_shot_status_forward:
  "map_option status (games (snd (fire_shot ok sock gc x y s)) c) = map_option status (games s c) \<or>
   (c = gc \<and> map_option status (games s c) = Some ''active'' \<and>
    map_option status (games (snd (fire_shot ok sock gc x y s)) c) = Some ''finished'')"
  by (auto simp: fire_shot_def fire_checked_def fire_persisted_def attempt_def putGame_def Let_def
      split: option.splits prod.splits)

text \<open>
  C6 does not hold of the code for \<open>ships_placed\<close>.  On the finished game the request
  is answered with the events of a successful placement and no error; the store's status
  goes from \<open>FINISHED\<close> to \<open>ACTIVE\<close> and the hit counters of the sunk destroyer are
  back at zero.
\<close>

theorem ships_placed_accepted_when_finished:
  "fst (ships_placed allOk True ''sockB'' ''ABC123'' [destroyer] exFinished) =
     [Broadcast ''ABC123'' Opponent_placed_ships,
      EmitAll ''ABC123'' (Game_state_turn ''ABC123'' ''active'' ''p1'')] \<and>
   map_option dbStatus (findGameByCode (db exFinished) ''ABC123'') = Some ''FINISHED'' \<and>
   map_option dbStatus
     (findGameByCode (db (snd (ships_placed allOk True ''sockB'' ''ABC123'' [destroyer] exFinished))) ''ABC123'') =
     Some ''ACTIVE'' \<and>
   map_option (hitCounts ''p2'') (games exFinished ''ABC123'') = Some (Some [Some 2]) \<and>
   map_option (hitCounts ''p2'')
     (games (snd (ships_placed allOk True ''sockB'' ''ABC123'' [destroyer] exFinished)) ''ABC123'') =
     Some (Some [Some 0])"
  by code_simp

text \<open>
  The other half of C6 holds: \<open>fire_shot\<close> on a game that is not \<open>active\<close>, so also
  on a finished one, only sends an error to the caller.
\<close>

lemma fire_shot_refused_unless_active:
  "games s gc = Some g \<Longrightarrow> status g \<noteq> ''active'' \<Longrightarrow>
     fire_shot ok sock gc x y s = ([Emit (Error Players_not_found)], s) \<or>
     fire_shot ok sock gc x y s = ([Emit (Error Game_not_active)], s)"
  by (simp add: fire_shot_def split: option.splits)

subsection \<open>The store after a write\<close>

lemma find_map_same_key:
  assumes "\<And>g. key (f g) = key g"
  shows "find (\<lambda>g. key g = i) (map (\<lambda>g. if key g = i then f g else g) d) =
         map_option f (find (\<lambda>g. key g = i) d)"
  by (induction d) (auto simp: assms)

lemma list_ex_find: "list_ex P xs = (find P xs \<noteq> None)"
  by (induction xs) auto

lemma shotCreate_found:
  "findGameById d i = Some r \<Longrightarrow> hasPlayer (playerId sh) d \<Longrightarrow>
     \<exists>d'. shotCreate sh i d = Some d' \<and> findGameById d' i = Some (r\<lparr>dbShots := dbShots r @ [sh]\<rparr>)"
  by (simp add: shotCreate_def findGameById_def list_ex_find find_map_same_key [where key = dbGame_id])

lemma gameUpdate_found:
  assumes "findGameById d i = Some r" and "\<And>g. dbGame_id (f g) = dbGame_id g"
  shows "\<exists>d'. gameUpdate i f d = Some d' \<and> findGameById d' i = Some (f r)"
  using assms(1)
  by (simp add: gameUpdate_def findGameById_def list_ex_find
        find_map_same_key [where key = dbGame_id] assms(2))

subsection \<open>fire\_shot: turn and end of game\<close>

text \<open>
  What the handler does with the outcome of \<open>checkShot\<close>, for a shot that passes
  every guard while the store has the game and the shooter and takes both writes.  When
  \<open>checkShot\<close> reports no win, the turn is the opponent's afterwards, in memory
  (\<open>currentTurn\<close>) and in the store (\<open>currentTurnPlayerId\<close>), and status and
  winner are as before.  When it reports a win, the status is \<open>finished\<close> in memory
  and \<open>FINISHED\<close> in the store, the store records the shooter as winner and has
  \<open>currentTurnPlayerId\<close> cleared, \<open>game_over\<close> goes to the whole room last, and
  \<open>currentTurn\<close> in memory still holds the shooter's id.
\<close>

lemma fire_shot_switches_turn_or_finishes:
  assumes game: "games s gc = Some g"
    and shooter: "find (\<lambda>p. socketId p = sock) (players g) = Some shooter"
    and target: "find (\<lambda>p. player_id p \<noteq> player_id shooter) (players g) = Some target"
    and active: "status g = ''active''"
    and turn: "currentTurn g = Some (player_id shooter)"
    and fleet: "player_ships target = Some targetShips"
    and valid: "validateShot x y (shotsOf shooter)"
    and through: "ok 0" "ok 1"
    and stored: "findGameById (db s) (dbGameId g) = Some r"
    and storedShooter: "hasPlayer (player_id shooter) (db s)"
  shows "if isWin (fst (checkShot x y targetShips))
         then map_option status (games (snd (fire_shot ok sock gc x y s)) gc) = Some ''finished'' \<and>
              map_option currentTurn (games (snd (fire_shot ok sock gc x y s)) gc) =
                Some (Some (player_id shooter)) \<and>
              map_option dbStatus (findGameById (db (snd (fire_shot ok sock gc x y s))) (dbGameId g)) =
                Some ''FINISHED'' \<and>
              map_option winnerPlayerId (findGameById (db (snd (fire_shot ok sock gc x y s))) (dbGameId g)) =
                Some (Some (player_id shooter)) \<and>
              map_option currentTurnPlayerId (findGameById (db (snd (fire_shot ok sock gc x y s))) (dbGameId g)) =
                Some None \<and>
              last (fst (fire_shot ok sock gc x y s)) = EmitAll gc (Game_over (player_id shooter))
         else map_option status (games (snd (fire_shot ok sock gc x y s)) gc) = Some ''active'' \<and>
              map_option currentTurn (games (snd (fire_shot ok sock gc x y s)) gc) =
                Some (Some (player_id target)) \<and>
              player_id target \<noteq> player_id shooter \<and>
              map_option dbStatus (findGameById (db (snd (fire_shot ok sock gc x y s))) (dbGameId g)) =
                Some (dbStatus r) \<and>
              map_option winnerPlayerId (findGameById (db (snd (fire_shot ok sock gc x y s))) (dbGameId g)) =
                Some (winnerPlayerId r) \<and>
              map_option currentTurnPlayerId (findGameById (db (snd (fire_shot ok sock gc x y s))) (dbGameId g)) =
                Some (Some (player_id target))"
proof -
  obtain shotResult targetShips' where cs: "checkShot x y targetShips = (shotResult, targetShips')"
    by (cases "checkShot x y targetShips")
  let ?sh = "\<lparr>shot_x = x, shot_y = y, shot_isHit = isHit shotResult, playerId = player_id shooter\<rparr>"
  from shotCreate_found [OF stored, of ?sh] storedShooter
  obtain d1 where d1: "shotCreate ?sh (dbGameId g) (db s) = Some d1"
    and r1: "findGameById d1 (dbGameId g) = Some (r\<lparr>dbShots := dbShots r @ [?sh]\<rparr>)"
    by auto
  have differ: "player_id target \<noteq> player_id shooter"
    using target by (auto dest: find_Some_iff [THEN iffD1])
  have sunk: "isWin shotResult \<Longrightarrow> isSunk shotResult"
    using checkShot_isWin_isSunk [of x y targetShips] cs by simp
  show ?thesis
  proof (cases "isWin shotResult")
    case True
    let ?f = "\<lambda>r. r\<lparr>dbStatus := ''FINISHED'', winnerPlayerId := Some (player_id shooter),
                      currentTurnPlayerId := None\<rparr>"
    from gameUpdate_found [OF r1, of ?f]
    obtain d2 where d2: "gameUpdate (dbGameId g) ?f d1 = Some d2"
      and r2: "findGameById d2 (dbGameId g) = Some (?f (r\<lparr>dbShots := dbShots r @ [?sh]\<rparr>))"
      by auto
    from True sunk show ?thesis
      using game shooter target active turn fleet valid through cs d1 d2 r2
      by (simp add: fire_shot_def fire_checked_def fire_persisted_def attempt_def putGame_def Let_def)
  next
    case False
    let ?f = "\<lambda>r. r\<lparr>currentTurnPlayerId := Some (player_id target)\<rparr>"
    from gameUpdate_found [OF r1, of ?f]
    obtain d2 where d2: "gameUpdate (dbGameId g) ?f d1 = Some d2"
      and r2: "findGameById d2 (dbGameId g) = Some (?f (r\<lparr>dbShots := dbShots r @ [?sh]\<rparr>))"
      by auto
    from False differ show ?thesis
      using game shooter target active turn fleet valid through cs d1 d2 r2
      by (simp add: fire_shot_def fire_checked_def fire_persisted_def attempt_def putGame_def Let_def)
  qed
qed

text \<open>
  In the game \<open>exLastTurn\<close> it is \<open>p1\<close>'s turn and \<open>p2\<close>'s destroyer has one hit:
  the shot at \<open>(1,1)\<close> wins, the shot at \<open>(3,3)\<close> passes the turn to \<open>p2\<close>.
\<close>

lemma fire_shot_switches_turn_or_finishes_witness:
  "games exLastTurn ''ABC123'' = Some exLastTurnGame \<and>
   find (\<lambda>p. socketId p = ''sockA'') (players exLastTurnGame) = Some exShooter \<and>
   find (\<lambda>p. player_id p \<noteq> player_id exShooter) (players exLastTurnGame) = Some exTarget \<and>
   status exLastTurnGame = ''active'' \<and>
   currentTurn exLastTurnGame = Some (player_id exShooter) \<and>
   player_ships exTarget = Some [destroyer\<lparr>hits := Some 1\<rparr>] \<and>
   validateShot 1 1 (shotsOf exShooter) \<and> validateShot 3 3 (shotsOf exShooter) \<and>
   allOk 0 \<and> allOk 1 \<and>
   findGameById (db exLastTurn) (dbGameId exLastTurnGame) = Some exLastTurnRow \<and>
   hasPlayer (player_id exShooter) (db exLastTurn) \<and>
   isWin (fst (checkShot 1 1 [destroyer\<lparr>hits := Some 1\<rparr>])) \<and>
   map_option status (games (snd (fire_shot allOk ''sockA'' ''ABC123'' 1 1 exLastTurn)) ''ABC123'') =
     Some ''finished'' \<and>
   map_option currentTurn (games (snd (fire_shot allOk ''sockA'' ''ABC123'' 1 1 exLastTurn)) ''ABC123'') =
     Some (Some ''p1'') \<and>
   map_option dbStatus (findGameById (db (snd (fire_shot allOk ''sockA'' ''ABC123'' 1 1 exLastTurn))) ''g1'') =
     Some ''FINISHED'' \<and>
   map_option winnerPlayerId (findGameById (db (snd (fire_shot allOk ''sockA'' ''ABC123'' 1 1 exLastTurn))) ''g1'') =
     Some (Some ''p1'') \<and>
   map_option currentTurnPlayerId
     (findGameById (db (snd (fire_shot allOk ''sockA'' ''ABC123'' 1 1 exLastTurn))) ''g1'') = Some None \<and>
   last (fst (fire_shot allOk ''sockA'' ''ABC123'' 1 1 exLastTurn)) = EmitAll ''ABC123'' (Game_over ''p1'') \<and>
   \<not> isWin (fst (checkShot 3 3 [destroyer\<lparr>hits := Some 1\<rparr>])) \<and>
   map_option status (games (snd (fire_shot allOk ''sockA'' ''ABC123'' 3 3 exLastTurn)) ''ABC123'') =
     Some ''active'' \<and>
   map_option currentTurn (games (snd (fire_shot allOk ''sockA'' ''ABC123'' 3 3 exLastTurn)) ''ABC123'') =
     Some (Some ''p2'') \<and>
   map_option currentTurnPlayerId
     (findGameById (db (snd (fire_shot allOk ''sockA'' ''ABC123'' 3 3 exLastTurn))) ''g1'') =
     Some (Some ''p2'')"
proof -
  have game: "games exLastTurn ''ABC123'' = Some exLastTurnGame"
    by code_simp
  have shooter: "find (\<lambda>p. socketId p = ''sockA'') (players exLastTurnGame) = Some exShooter"
    by code_simp
  have target: "find (\<lambda>p. player_id p \<noteq> player_id exShooter) (players exLastTurnGame) = Some exTarget"
    by code_simp
  have active: "status exLastTurnGame = ''active''"
    by code_simp
  have turn: "currentTurn exLastTurnGame = Some (player_id exShooter)"
    by code_simp
  have fleet: "player_ships exTarget = Some [destroyer\<lparr>hits := Some 1\<rparr>]"
    by code_simp
  have valid1: "validateShot 1 1 (shotsOf exShooter)"
    by code_simp
  have valid3: "validateShot 3 3 (shotsOf exShooter)"
    by code_simp
  have through: "allOk 0" "allOk 1"
    by (simp_all add: allOk_def)
  have stored: "findGameById (db exLastTurn) (dbGameId exLastTurnGame) = Some exLastTurnRow"
    by code_simp
  have storedShooter: "hasPlayer (player_id exShooter) (db exLastTurn)"
    by code_simp
  have win: "isWin (fst (checkShot 1 1 [destroyer\<lparr>hits := Some 1\<rparr>]))"
    by code_simp
  have miss: "\<not> isWin (fst (checkShot 3 3 [destroyer\<lparr>hits := Some 1\<rparr>]))"
    by code_simp
  have names: "player_id exShooter = ''p1''" "player_id exTarget = ''p2''" "dbGameId exLastTurnGame = ''g1''"
    by (simp_all add: exShooter_def exTarget_def exLastTurnGame_def)
  note won = fire_shot_switches_turn_or_finishes
    [OF game shooter target active turn fleet valid1 through stored storedShooter]
  note passed = fire_shot_switches_turn_or_finishes
    [OF game shooter target active turn fleet valid3 through stored storedShooter]
  from won win have won': "map_option status (games (snd (fire_shot allOk ''sockA'' ''ABC123'' 1 1 exLastTurn)) ''ABC123'') =
     Some ''finished'' \<and>
   map_option currentTurn (games (snd (fire_shot allOk ''sockA'' ''ABC123'' 1 1 exLastTurn)) ''ABC123'') =
     Some (Some ''p1'') \<and>
   map_option dbStatus (findGameById (db (snd (fire_shot allOk ''sockA'' ''ABC123'' 1 1 exLastTurn))) ''g1'') =
     Some ''FINISHED'' \<and>
   map_option winnerPlayerId (findGameById (db (snd (fire_shot allOk ''sockA'' ''ABC123'' 1 1 exLastTurn))) ''g1'') =
     Some (Some ''p1'') \<and>
   map_option currentTurnPlayerId
     (findGameById (db (snd (fire_shot allOk ''sockA'' ''ABC123'' 1 1 exLastTurn))) ''g1'') = Some None \<and>
   last (fst (fire_shot allOk ''sockA'' ''ABC123'' 1 1 exLastTurn)) = EmitAll ''ABC123'' (Game_over ''p1'')"
    by (simp only: if_True names)
  from passed miss have passed': "map_option status (games (snd (fire_shot allOk ''sockA'' ''ABC123'' 3 3 exLastTurn)) ''ABC123'') =
     Some ''active'' \<and>
   map_option currentTurn (games (snd (fire_shot allOk ''sockA'' ''ABC123'' 3 3 exLastTurn)) ''ABC123'') =
     Some (Some ''p2'') \<and>
   map_option currentTurnPlayerId
     (findGameById (db (snd (fire_shot allOk ''sockA'' ''ABC123'' 3 3 exLastTurn))) ''g1'') =
     Some (Some ''p2'')"
    by (simp only: if_False names)
  show ?thesis
    using game shooter target active turn fleet valid1 valid3 through stored storedShooter win miss
      won' passed'
    by blast
qed

text \<open>
  C7 does not hold of the code.  In \<open>exLastTurn\<close> it is \<open>p1\<close>'s turn, \<open>p2\<close>'s
  fleet is the destroyer alone, on the cells \<open>(0,0)\<close> and \<open>(1,0)\<close>, and \<open>p1\<close>
  has already hit \<open>(0,0)\<close>.  The shot of \<open>p1\<close> at \<open>(1,0)\<close> sinks the last ship
  and so is the winning blow; the handler reports a miss, leaves the status \<open>active\<close>
  with no winner and passes the turn to \<open>p2\<close>.  The shot at \<open>(1,1)\<close>, a cell no
  ship occupies, ends the game instead; then the store's \<open>currentTurnPlayerId\<close> is
  cleared while \<open>currentTurn\<close> in memory keeps \<open>p1\<close>.
\<close>

theorem winning_blow_not_recognised:
  "placementCells destroyer = [(0, 0), (1, 0)] \<and>
   map_option (hitCounts ''p2'') (games exLastTurn ''ABC123'') = Some (Some [Some 1]) \<and>
   map_option (shotHistory ''p1'') (games exLastTurn ''ABC123'') =
     Some (Some [\<lparr>shot_x = 0, shot_y = 0, shot_isHit = True\<rparr>]) \<and>
   map_option currentTurn (games exLastTurn ''ABC123'') = Some (Some ''p1'') \<and>
   fst (fire_shot allOk ''sockA'' ''ABC123'' 1 0 exLastTurn) =
     [Emit (Shot_result 1 0 False), Broadcast ''ABC123'' (Opponent_shot 1 0 False)] \<and>
   map_option status (games (snd (fire_shot allOk ''sockA'' ''ABC123'' 1 0 exLastTurn)) ''ABC123'') =
     Some ''active'' \<and>
   map_option currentTurn (games (snd (fire_shot allOk ''sockA'' ''ABC123'' 1 0 exLastTurn)) ''ABC123'') =
     Some (Some ''p2'') \<and>
   map_option winnerPlayerId
     (findGameByCode (db (snd (fire_shot allOk ''sockA'' ''ABC123'' 1 0 exLastTurn))) ''ABC123'') = Some None \<and>
   fst (fire_shot allOk ''sockA'' ''ABC123'' 1 1 exLastTurn) =
     [Emit (Shot_result 1 1 True), Broadcast ''ABC123'' (Opponent_shot 1 1 True),
      Emit (Ship_sunk (Some ''destroyer'')), EmitAll ''ABC123'' (Game_over ''p1'')] \<and>
   map_option status (games (snd (fire_shot allOk ''sockA'' ''ABC123'' 1 1 exLastTurn)) ''ABC123'') =
     Some ''finished'' \<and>
   map_option currentTurn (games (snd (fire_shot allOk ''sockA'' ''ABC123'' 1 1 exLastTurn)) ''ABC123'') =
     Some (Some ''p1'') \<and>
   map_option currentTurnPlayerId
     (findGameByCode (db (snd (fire_shot allOk ''sockA'' ''ABC123'' 1 1 exLastTurn))) ''ABC123'') = Some None"
  by code_simp

text \<open>
  A Session rebuilt by \<open>reconstructGameState\<close> has the store's status \<open>ACTIVE\<close>,
  which the guard of \<open>fire_shot\<close> does not take for \<open>active\<close>: the player whose
  turn it is gets \<open>Game not active\<close>.
\<close>

lemma reconstructed_session_refuses_shots:
  "map_option status (games exRestarted ''ABC123'') = Some ''ACTIVE'' \<and>
   map_option currentTurn (games exRestarted ''ABC123'') = Some (Some ''p1'') \<and>
   map_option (\<lambda>g. map (\<lambda>p. (player_id p, socketId p)) (players g)) (games exRestarted ''ABC123'') =
     Some [(''p1'', ''sockA2''), (''p2'', ''unknown'')] \<and>
   fst (fire_shot allOk ''sockA2'' ''ABC123'' 1 1 exRestarted) = [Emit (Error Game_not_active)]"
  by code_simp

subsection \<open>Store failures\<close>

lemma ships_placed_failed_first_write:
  "\<not> ok 0 \<Longrightarrow> \<exists>e. ships_placed ok coin sock gc fleet s = ([Emit (Error e)], s)"
  by (simp add: ships_placed_def attempt_def split: option.splits)

text \<open>
  When the shot write fails, the caller gets the error and the store is as before, but
  the Session already holds the outcome of \<open>checkShot\<close> on the target's fleet and
  the shot on the shooter's history.
\<close>

lemma fire_shot_failed_shot_write:
  assumes "games s gc = Some g"
    and "find (\<lambda>p. socketId p = sock) (players g) = Some shooter"
    and "find (\<lambda>p. player_id p \<noteq> player_id shooter) (players g) = Some target"
    and "status g = ''active''"
    and "currentTurn g = Some (player_id shooter)"
    and "player_ships target = Some targetShips"
    and "validateShot x y (shotsOf shooter)"
    and "\<not> ok 0"
  shows "fire_shot ok sock gc x y s =
           ([Emit (Error Failed_to_process_shot)],
            putGame gc
              (g\<lparr>players :=
                   updateFirst (\<lambda>p. socketId p = sock)
                     (\<lambda>p. p\<lparr>player_shots := Some (shotsOf shooter @
                              [\<lparr>shot_x = x, shot_y = y,
                                shot_isHit = isHit (fst (checkShot x y targetShips))\<rparr>])\<rparr>)
                     (updateFirst (\<lambda>p. player_id p \<noteq> player_id shooter)
                        (\<lambda>p. p\<lparr>player_ships := Some (snd (checkShot x y targetShips))\<rparr>)
                        (updateFirst (\<lambda>p. socketId p = sock)
                           (\<lambda>p. p\<lparr>player_shots := Some (shotsOf p)\<rparr>) (players g)))\<rparr>)
              s)"
  using assms
  by (simp add: fire_shot_def fire_checked_def attempt_def Let_def split: prod.splits)

lemma fire_shot_memory_later_write:
  "ok1 0 = ok2 0 \<Longrightarrow>
     games (snd (fire_shot ok1 sock gc x y s)) = games (snd (fire_shot ok2 sock gc x y s))"
  by (simp add: fire_shot_def fire_checked_def fire_persisted_def attempt_def putGame_def Let_def
        split: option.splits prod.splits)

lemma ships_placed_memory_later_write:
  "ok1 0 = ok2 0 \<Longrightarrow>
     games (snd (ships_placed ok1 coin sock gc fleet s)) =
     games (snd (ships_placed ok2 coin sock gc fleet s))"
  by (simp add: ships_placed_def attempt_def putGame_def Let_def split: option.splits)

text \<open>
  C3 does not hold of the code.  In the game \<open>exActive\<close>, with a store that takes no
  write, \<open>fire_shot\<close> of \<open>p1\<close> at \<open>(2,2)\<close> sends the caller an error only and
  leaves the store as it was, but the Session has changed: \<open>p2\<close>'s submarine has one
  hit more and \<open>p1\<close>'s history holds the shot, so that the same shot, sent again to a
  working store, is refused as already taken.  With a store that takes the shot and then
  fails, both players have already been told of the shot and the turn in memory is
  \<open>p2\<close>'s while the store still says \<open>p1\<close>.
\<close>

theorem failed_write_changes_session:
  "fst (fire_shot noneOk ''sockA'' ''ABC123'' 2 2 exActive) = [Emit (Error Failed_to_process_shot)] \<and>
   db (snd (fire_shot noneOk ''sockA'' ''ABC123'' 2 2 exActive)) = db exActive \<and>
   map_option (hitCounts ''p2'') (games exActive ''ABC123'') = Some (Some [Some 0, Some 0]) \<and>
   map_option (hitCounts ''p2'') (games (snd (fire_shot noneOk ''sockA'' ''ABC123'' 2 2 exActive)) ''ABC123'') =
     Some (Some [Some 0, Some 1]) \<and>
   map_option (shotHistory ''p1'') (games exActive ''ABC123'') = Some None \<and>
   map_option (shotHistory ''p1'') (games (snd (fire_shot noneOk ''sockA'' ''ABC123'' 2 2 exActive)) ''ABC123'') =
     Some (Some [\<lparr>shot_x = 2, shot_y = 2, shot_isHit = True\<rparr>]) \<and>
   fst (fire_shot allOk ''sockA'' ''ABC123'' 2 2
          (snd (fire_shot noneOk ''sockA'' ''ABC123'' 2 2 exActive))) = [Emit (Error Invalid_shot)] \<and>
   fst (fire_shot firstOnly ''sockA'' ''ABC123'' 2 2 exActive) =
     [Emit (Shot_result 2 2 True), Broadcast ''ABC123'' (Opponent_shot 2 2 True),
      Emit (Error Failed_to_process_shot)] \<and>
   map_option currentTurn (games exActive ''ABC123'') = Some (Some ''p1'') \<and>
   map_option currentTurn (games (snd (fire_shot firstOnly ''sockA'' ''ABC123'' 2 2 exActive)) ''ABC123'') =
     Some (Some ''p2'') \<and>
   map_option currentTurnPlayerId
     (findGameByCode (db (snd (fire_shot firstOnly ''sockA'' ''ABC123'' 2 2 exActive))) ''ABC123'') =
     Some (Some ''p1'')"
  by code_simp

end
